theory Spec2Isabelle
  imports Complex_Main
begin

section \<open>JavaScript numbers\<close>

text \<open>
  A JavaScript number is modelled as an exact real, extended by the three special values
  of IEEE arithmetic that the calculator can produce: \<open>NaN\<close> and the two infinities
  (\<open>Inf True\<close> is \<open>+Infinity\<close>, \<open>Inf False\<close> is \<open>-Infinity\<close>).
  The rounding of doubles and the sign of zero are not modelled: \<open>Num x\<close> stands
  for the double that carries the value \<open>x\<close>, sums, products and quotients of finite
  numbers are exact, and zero divisors are read as \<open>+0\<close>. Of the overflows of finite
  values that of \<open>Math.pow\<close> is modelled, the operation by which the fixed regime
  leaves the range of a double.
\<close>

datatype jsnum = Num real | Inf bool | NaN

fun js_neg :: "jsnum \<Rightarrow> jsnum" where
  "js_neg (Num a) = Num (- a)"
| "js_neg (Inf s) = Inf (\<not> s)"
| "js_neg NaN = NaN"

fun js_add :: "jsnum \<Rightarrow> jsnum \<Rightarrow> jsnum" where
  "js_add (Num a) (Num b) = Num (a + b)"
| "js_add (Num a) (Inf t) = Inf t"
| "js_add (Inf s) (Num b) = Inf s"
| "js_add (Inf s) (Inf t) = (if s = t then Inf s else NaN)"
| "js_add NaN y = NaN"
| "js_add x NaN = NaN"

definition js_sub :: "jsnum \<Rightarrow> jsnum \<Rightarrow> jsnum" where
  "js_sub x y = js_add x (js_neg y)"

fun js_mul :: "jsnum \<Rightarrow> jsnum \<Rightarrow> jsnum" where
  "js_mul (Num a) (Num b) = Num (a * b)"
| "js_mul (Num a) (Inf t) = (if a = 0 then NaN else Inf (t = (0 < a)))"
| "js_mul (Inf s) (Num b) = (if b = 0 then NaN else Inf (s = (0 < b)))"
| "js_mul (Inf s) (Inf t) = Inf (s = t)"
| "js_mul NaN y = NaN"
| "js_mul x NaN = NaN"

fun js_div :: "jsnum \<Rightarrow> jsnum \<Rightarrow> jsnum" where
  "js_div (Num a) (Num b) =
     (if b \<noteq> 0 then Num (a / b) else if a = 0 then NaN else Inf (0 < a))"
| "js_div (Num a) (Inf t) = Num 0"
| "js_div (Inf s) (Num b) = Inf (s = (0 \<le> b))"
| "js_div (Inf s) (Inf t) = NaN"
| "js_div NaN y = NaN"
| "js_div x NaN = NaN"

text \<open>
  A real whose magnitude reaches \<open>2^1024 - 2^970\<close> lies beyond the greatest double
  and rounds to an infinity.
\<close>

definition overflow_bound :: real where
  "overflow_bound = 2 ^ 1024 - 2 ^ 970"

text \<open>
  \<open>Math.pow(base, exponent)\<close> for an exponent that is a natural number; a power
  beyond the range of a double is an infinity.
\<close>

definition Math_pow :: "jsnum \<Rightarrow> nat \<Rightarrow> jsnum" where
  "Math_pow base e =
     (if e = 0 then Num 1
      else case base of
             Num b \<Rightarrow> (if overflow_bound \<le> \<bar>b ^ e\<bar> then Inf (0 < b ^ e) else Num (b ^ e))
           | Inf s \<Rightarrow> Inf (s \<or> even e)
           | NaN \<Rightarrow> NaN)"

text \<open>The comparison \<open>x > y\<close>: false as soon as one side is \<open>NaN\<close>.\<close>

fun js_gt :: "jsnum \<Rightarrow> jsnum \<Rightarrow> bool" where
  "js_gt (Num a) (Num b) = (b < a)"
| "js_gt (Num a) (Inf t) = (\<not> t)"
| "js_gt (Inf s) (Num b) = s"
| "js_gt (Inf s) (Inf t) = (s \<and> \<not> t)"
| "js_gt NaN y = False"
| "js_gt x NaN = False"

text \<open>The comparison \<open>x <= y\<close>, again false on \<open>NaN\<close>.\<close>

fun js_le :: "jsnum \<Rightarrow> jsnum \<Rightarrow> bool" where
  "js_le (Num a) (Num b) = (a \<le> b)"
| "js_le (Num a) (Inf t) = t"
| "js_le (Inf s) (Num b) = (\<not> s)"
| "js_le (Inf s) (Inf t) = (t \<or> \<not> s)"
| "js_le NaN y = False"
| "js_le x NaN = False"

text \<open>Truthiness of a number in a condition: \<open>0\<close> and \<open>NaN\<close> are falsy.\<close>

fun truthy :: "jsnum \<Rightarrow> bool" where
  "truthy (Num a) = (a \<noteq> 0)"
| "truthy (Inf s) = True"
| "truthy NaN = False"

fun is_Num :: "jsnum \<Rightarrow> bool" where
  "is_Num (Num a) = True"
| "is_Num x = False"

section \<open>Dates\<close>

text \<open>
  The calculator uses of a \<open>Date\<close> only its local calendar fields: the year, the month
  (0 to 11) and the day of the month. \<open>setMonth\<close> sets the month and renormalises:
  a month beyond 11 carries into the year, and a day beyond the end of the target month
  carries into the following month. For a day of the month up to 31 one carry is enough,
  and this is the only carry modelled. The time of day and the time zone are left out.
\<close>

record js_date =
  getFullYear :: nat
  getMonth :: nat
  getDate :: nat

definition leap_year :: "nat \<Rightarrow> bool" where
  "leap_year y = (y mod 4 = 0 \<and> (y mod 100 \<noteq> 0 \<or> y mod 400 = 0))"

definition DaysInMonth :: "nat \<Rightarrow> nat \<Rightarrow> nat" where
  "DaysInMonth y m =
     (if m = 1 then (if leap_year y then 29 else 28)
      else if m \<in> {3, 5, 8, 10} then 30 else 31)"


definition setMonth :: "js_date \<Rightarrow> nat \<Rightarrow> js_date" where
  "setMonth d m =
     (let y = getFullYear d + m div 12; mn = m mod 12; len = DaysInMonth y mn
      in if getDate d \<le> len then \<lparr>getFullYear = y, getMonth = mn, getDate = getDate d\<rparr>
         else if mn = 11 then \<lparr>getFullYear = y + 1, getMonth = 0, getDate = getDate d - len\<rparr>
         else \<lparr>getFullYear = y, getMonth = mn + 1, getDate = getDate d - len\<rparr>)"

section \<open>The rate tables\<close>

text \<open>
  An item of the forecast service: its reference year, the day it was published (as the
  time value that \<open>new Date(item.Data)\<close> yields) and the forecast rate in per cent,
  which the service delivers as a number. The other fields of an item are not read.
  The fetched table is the JavaScript object \<open>results\<close>, keyed by reference year; it is
  an association list here, read with \<open>map_of\<close>.
\<close>

record item =
  DataReferencia :: nat
  Data :: int
  Media :: jsnum

type_synonym rate_table = "(nat \<times> item) list"

definition obj_set :: "rate_table \<Rightarrow> nat \<Rightarrow> item \<Rightarrow> rate_table" where
  "obj_set results ano it = (ano, it) # filter (\<lambda>p. fst p \<noteq> ano) results"

text \<open>
  \<open>Math.max(...Object.keys(t).map(Number))\<close>. For the empty table JavaScript yields
  \<open>-Infinity\<close>, which is the key of no entry: that is \<open>None\<close> here.
\<close>

definition anoFinal_of :: "rate_table \<Rightarrow> nat option" where
  "anoFinal_of t = (if t = [] then None else Some (fold max (map fst t) 0))"

fun ipca_items :: "item list \<Rightarrow> rate_table \<Rightarrow> rate_table" where
  "ipca_items [] results = results"
| "ipca_items (it # rest) results =
     (let ano = DataReferencia it
      in case map_of results ano of
           None \<Rightarrow> ipca_items rest (obj_set results ano it)
         | Some atual \<Rightarrow>
             if Data atual < Data it then ipca_items rest (obj_set results ano it)
             else ipca_items rest results)"

text \<open>
  The argument is what \<open>axios.get\<close> delivers: \<open>None\<close> when the request throws,
  otherwise the items of \<open>data.value\<close>. The \<open>catch\<close> logs the error and the function
  then returns \<open>undefined\<close>, which is \<open>None\<close>.
\<close>

definition fetchIPCARateReal :: "item list option \<Rightarrow> rate_table option" where
  "fetchIPCARateReal response =
     (case response of None \<Rightarrow> None | Some items \<Rightarrow> Some (ipca_items items []))"

text \<open>
  \<open>parseFloat(x.toFixed(3))\<close>: rounding to three decimals, ties away from zero. The
  argument is the exact product here, so that a product that falls on a tie, or next to
  one, may be rounded the other way than the double that the code rounds.
\<close>

fun toFixed3 :: "jsnum \<Rightarrow> jsnum" where
  "toFixed3 (Num x) =
     (if 10 ^ 21 \<le> \<bar>x\<bar> then Num x
      else Num (sgn x * real_of_int \<lfloor>\<bar>x\<bar> * 1000 + 1 / 2\<rfloor> / 1000))"
| "toFixed3 (Inf s) = Inf s"
| "toFixed3 NaN = NaN"

fun cdi_items :: "item list \<Rightarrow> rate_table \<Rightarrow> rate_table" where
  "cdi_items [] results = results"
| "cdi_items (it # rest) results =
     (let ano = DataReferencia it;
          scaled = it\<lparr>Media := toFixed3 (js_mul (Media it) (Num 0.98))\<rparr>
      in case map_of results ano of
           None \<Rightarrow> cdi_items rest (obj_set results ano scaled)
         | Some atual \<Rightarrow>
             if Data atual < Data it then cdi_items rest (obj_set results ano scaled)
             else cdi_items rest results)"

definition fetchCDIRateReal :: "item list option \<Rightarrow> rate_table option" where
  "fetchCDIRateReal response =
     (case response of None \<Rightarrow> None | Some items \<Rightarrow> Some (cdi_items items []))"

section \<open>The calculation\<close>

text \<open>
  The form values that \<open>calculate\<close> reads. The three amounts are kept as the numbers
  that \<open>Number(text.replace(/\./g, '').replace(',', '.'))\<close> yields for the text of the
  field (section "The form schema" models that conversion), and \<open>periodo\<close> as the
  natural number that its digit string denotes: the schema admits a \<open>periodo\<close> of
  digits only, and \<open>calculate\<close> runs only on values that the schema admitted.
\<close>

record money_values =
  tipoDeTaxa :: string
  periodo :: nat
  periodoTipo :: string
  aporteInicial :: jsnum
  aporteMensal :: jsnum
  taxa :: jsnum
  isentoDeImposto :: string
  vencimento :: string

record result =
  montanteBruto :: jsnum
  montanteLiquido :: jsnum

datatype js_error = TypeError

text \<open>The year of the \<open>i\<close>-th simulated month: \<open>futureDate.getFullYear()\<close>.\<close>

definition ano_of :: "js_date \<Rightarrow> nat \<Rightarrow> nat" where
  "ano_of today i = getFullYear (setMonth today (getMonth today + i))"

text \<open>
  \<open>t[anoFinal].Media\<close>: reading \<open>Media\<close> of an entry that does not exist throws.
\<close>

definition final_Media :: "rate_table \<Rightarrow> nat option \<Rightarrow> js_error + jsnum" where
  "final_Media t anoFinal =
     (case anoFinal of
        None \<Rightarrow> Inl TypeError
      | Some y \<Rightarrow> (case map_of t y of None \<Rightarrow> Inl TypeError | Some it \<Rightarrow> Inr (Media it)))"

text \<open>\<open>ipcaData[ano]?.Media ?? ipcaData[anoFinal].Media\<close>\<close>

definition ipcaAno_of :: "rate_table \<Rightarrow> nat option \<Rightarrow> nat \<Rightarrow> js_error + jsnum" where
  "ipcaAno_of ipcaData anoFinal ano =
     (case map_of ipcaData ano of
        Some it \<Rightarrow> Inr (Media it)
      | None \<Rightarrow> final_Media ipcaData anoFinal)"

text \<open>
  \<open>cdi[ano]?.Media ? cdi[ano]?.Medi * 1.2 : cdi[anoFinal].Media * 1.2\<close>: the entries
  have no field \<open>Medi\<close>, so the first branch multiplies \<open>undefined\<close> by 1.2, which is
  \<open>NaN\<close>.
\<close>

definition cdiAno_of :: "rate_table \<Rightarrow> nat option \<Rightarrow> nat \<Rightarrow> js_error + jsnum" where
  "cdiAno_of cdi anoFinal ano =
     (if (case map_of cdi ano of Some it \<Rightarrow> truthy (Media it) | None \<Rightarrow> False)
      then Inr (js_mul NaN (Num 1.2))
      else (case final_Media cdi anoFinal of
              Inl e \<Rightarrow> Inl e
            | Inr m \<Rightarrow> Inr (js_mul m (Num 1.2))))"

text \<open>
  One month of either simulation, from the year's rate \<open>ipcaAno\<close> on: the pair is
  \<open>(montante, totalInvestido)\<close>.
\<close>

definition month_step :: "jsnum \<Rightarrow> jsnum \<Rightarrow> jsnum \<Rightarrow> jsnum \<times> jsnum \<Rightarrow> jsnum \<times> jsnum" where
  "month_step ipcaAno taxaReal aporteMensalValue s =
     (let ipcaMes = js_div (js_div ipcaAno (Num 12)) (Num 100);
          taxaEfetiva = js_sub (js_mul (js_add (Num 1) taxaReal) (js_add (Num 1) ipcaMes)) (Num 1)
      in (js_mul (js_add (fst s) aporteMensalValue) (js_add (Num 1) taxaEfetiva),
          js_add (snd s) aporteMensalValue))"

text \<open>
  The loop \<open>for (let i = 1; i <= meses; i++)\<close> of both indexed regimes; \<open>rate\<close> is
  the lookup of the year's rate, which may throw.
\<close>

function month_loop ::
  "(nat \<Rightarrow> js_error + jsnum) \<Rightarrow> js_date \<Rightarrow> jsnum \<Rightarrow> jsnum \<Rightarrow> nat \<Rightarrow> nat \<Rightarrow> jsnum \<times> jsnum
     \<Rightarrow> js_error + jsnum \<times> jsnum" where
  "month_loop rate today taxaReal aporteMensalValue meses i s =
     (if i \<le> meses then
        (case rate (ano_of today i) of
           Inl e \<Rightarrow> Inl e
         | Inr ipcaAno \<Rightarrow>
             month_loop rate today taxaReal aporteMensalValue meses (Suc i)
               (month_step ipcaAno taxaReal aporteMensalValue s))
      else Inr s)"
  by pat_completeness auto
termination
  by (relation "measure (\<lambda>(rate, today, taxaReal, aporteMensalValue, meses, i, s). Suc meses - i)")
     auto

declare month_loop.simps [simp del]

text \<open>
  \<open>calculate\<close>. \<open>today\<close> is \<open>new Date()\<close>; the two responses are what \<open>axios.get\<close>
  delivers for the inflation and for the benchmark series. The value is the object passed
  to \<open>setResult\<close>, or the exception that leaves \<open>calculate\<close> before \<open>setResult\<close> runs.
  \<open>Object.keys(undefined)\<close> throws a \<open>TypeError\<close>.
\<close>

definition calculate ::
  "js_date \<Rightarrow> item list option \<Rightarrow> item list option \<Rightarrow> money_values \<Rightarrow> js_error + result" where
  "calculate today ipca_response selic_response v =
     (let meses = (if periodoTipo v = ''ano'' then periodo v * 12 else periodo v);
          taxaValue = (if tipoDeTaxa v = ''cdi'' then Num 0 else taxa v);
          aporteInicialValue = aporteInicial v;
          aporteMensalValue = aporteMensal v;
          covertedTaxa =
            (if vencimento v = ''meses'' then js_div taxaValue (Num 100)
             else js_div (js_div taxaValue (Num 12)) (Num 100))
      in if tipoDeTaxa v = ''prefixado'' then
           (let montanteBruto =
                  js_add
                    (js_mul aporteInicialValue (Math_pow (js_add (Num 1) covertedTaxa) meses))
                    (js_mul aporteMensalValue
                       (js_div (js_sub (Math_pow (js_add (Num 1) covertedTaxa) meses) (Num 1))
                          covertedTaxa));
                totalInvestido =
                  js_add aporteInicialValue (js_mul aporteMensalValue (Num (real meses)));
                rendimento = js_sub montanteBruto totalInvestido;
                liquido =
                  (if isentoDeImposto v = ''sim'' then montanteBruto
                   else js_sub montanteBruto (js_mul rendimento (Num 0.15)))
            in Inr \<lparr>montanteBruto = montanteBruto, montanteLiquido = liquido\<rparr>)
         else if tipoDeTaxa v = ''ipca+'' then
           (case fetchIPCARateReal ipca_response of
              None \<Rightarrow> Inl TypeError
            | Some ipcaData \<Rightarrow>
                (let anoFinal = anoFinal_of ipcaData
                 in case month_loop (ipcaAno_of ipcaData anoFinal) today covertedTaxa
                           aporteMensalValue meses 1 (aporteInicialValue, aporteInicialValue) of
                      Inl e \<Rightarrow> Inl e
                    | Inr (montante, totalInvestido) \<Rightarrow>
                        (let rendimento = js_sub montante totalInvestido;
                             liquido =
                               (if isentoDeImposto v = ''sim'' then montante
                                else js_sub montante (js_mul rendimento (Num 0.15)))
                         in Inr \<lparr>montanteBruto = montante, montanteLiquido = liquido\<rparr>)))
         else
           (case fetchCDIRateReal selic_response of
              None \<Rightarrow> Inl TypeError
            | Some cdi \<Rightarrow>
                (let anoFinal = anoFinal_of cdi
                 in case month_loop (cdiAno_of cdi anoFinal) today
                           (js_div (js_div taxaValue (Num 100)) (Num 12))
                           aporteMensalValue meses 1 (aporteInicialValue, aporteInicialValue) of
                      Inl e \<Rightarrow> Inl e
                    | Inr (montante, totalInvestido) \<Rightarrow>
                        (let rendimento = js_sub montante totalInvestido;
                             liquido =
                               (if isentoDeImposto v = ''sim'' then montante
                                else js_sub montante (js_mul rendimento (Num 0.15)))
                         in Inr \<lparr>montanteBruto = montante, montanteLiquido = liquido\<rparr>))))"

section \<open>The form schema\<close>

text \<open>
  The schema tests each text field against a regular expression anchored at both ends.
  The expressions are kept as syntax trees and tested by derivatives; \<open>lang\<close> is the
  set of strings an expression denotes. \<open>Dig\<close> is \<open>\d\<close>, which in JavaScript is
  one of the ten ASCII digits.
\<close>

datatype rx = Fail | Eps | Dig | Chr char | Alt rx rx | Cat rx rx | Star rx

definition digit :: "char \<Rightarrow> bool" where
  "digit c = (c \<in> set ''0123456789'')"



fun nullable :: "rx \<Rightarrow> bool" where
  "nullable Fail = False"
| "nullable Eps = True"
| "nullable Dig = False"
| "nullable (Chr a) = False"
| "nullable (Alt r s) = (nullable r \<or> nullable s)"
| "nullable (Cat r s) = (nullable r \<and> nullable s)"
| "nullable (Star r) = True"

fun deriv :: "char \<Rightarrow> rx \<Rightarrow> rx" where
  "deriv c Fail = Fail"
| "deriv c Eps = Fail"
| "deriv c Dig = (if digit c then Eps else Fail)"
| "deriv c (Chr a) = (if c = a then Eps else Fail)"
| "deriv c (Alt r s) = Alt (deriv c r) (deriv c s)"
| "deriv c (Cat r s) =
     (if nullable r then Alt (Cat (deriv c r) s) (deriv c s) else Cat (deriv c r) s)"
| "deriv c (Star r) = Cat (deriv c r) (Star r)"

text \<open>\<open>/^r$/.test(s)\<close>\<close>

definition test :: "rx \<Rightarrow> string \<Rightarrow> bool" where
  "test r s = nullable (fold deriv s r)"

definition Opt :: "rx \<Rightarrow> rx" where
  "Opt r = Alt r Eps"

text \<open>\<open>/^\d{1,3}(\.\d{3})*,\d{2}$/\<close>\<close>

definition currency_rx :: rx where
  "currency_rx =
     Cat (Cat Dig (Cat (Opt Dig) (Opt Dig)))
       (Cat (Star (Cat (Chr CHR ''.'') (Cat Dig (Cat Dig Dig))))
          (Cat (Chr CHR '','') (Cat Dig Dig)))"

text \<open>\<open>/^\d*(,\d{0,2})?$/\<close>\<close>

definition taxa_rx :: rx where
  "taxa_rx = Cat (Star Dig) (Opt (Cat (Chr CHR '','') (Cat (Opt Dig) (Opt Dig))))"

text \<open>\<open>/^\d+$/\<close>\<close>

definition periodo_rx :: rx where
  "periodo_rx = Cat Dig (Star Dig)"

text \<open>\<open>val.replace(/\./g, '')\<close> and \<open>val.replace(',', '.')\<close> (the first comma only).\<close>

definition replace_dots :: "string \<Rightarrow> string" where
  "replace_dots val = filter (\<lambda>c. c \<noteq> CHR ''.'') val"

fun replace_comma :: "string \<Rightarrow> string" where
  "replace_comma [] = []"
| "replace_comma (c # cs) = (if c = CHR '','' then CHR ''.'' # cs else c # replace_comma cs)"

definition digit_val :: "char \<Rightarrow> nat" where
  "digit_val c = of_char c - 48"

definition nat_of_digits :: "string \<Rightarrow> nat" where
  "nat_of_digits ds = foldl (\<lambda>n c. 10 * n + digit_val c) 0 ds"

text \<open>
  \<open>Number(s)\<close> on the strings that the schema passes to it: decimal digits with at most
  one point. The empty string is 0; digits, digits with a point before, between or after
  them denote their decimal value; a lone point is \<open>NaN\<close>. The other forms that
  \<open>Number\<close> reads (surrounding white space, a sign, an exponent, a radix prefix,
  \<open>Infinity\<close>) need a character that none of the three expressions admits; they are
  not modelled, and this function answers \<open>NaN\<close> on every string with such a character.
  The value is the exact decimal value: neither its rounding to a double nor, for a text of
  more than 308 digits, its overflow to \<open>Infinity\<close> is modelled.
\<close>

definition Number_js :: "string \<Rightarrow> jsnum" where
  "Number_js s =
     (if s = [] then Num 0
      else let ip = takeWhile (\<lambda>c. c \<noteq> CHR ''.'') s;
               rest = dropWhile (\<lambda>c. c \<noteq> CHR ''.'') s
           in if rest = [] then
                (if list_all digit ip then Num (real (nat_of_digits ip)) else NaN)
              else
                (let fp = tl rest
                 in if list_all digit ip \<and> list_all digit fp \<and> (ip \<noteq> [] \<or> fp \<noteq> [])
                    then Num (real (nat_of_digits ip) + real (nat_of_digits fp) / 10 ^ length fp)
                    else NaN))"

text \<open>
  The first issue that the schema raises on a field. The schema carries a message for
  each: \<open>MalformedCurrency\<close> is "Formato invalido. Use R$ 0,00",
  \<open>NonPositiveContribution\<close> is "O aporte mensal deve ser maior que zero",
  \<open>MalformedPercentage\<close> is "A taxa deve ser um numero e pode conter uma virgula",
  \<open>NonPositiveRate\<close> is "A taxa deve ser maior que zero",
  \<open>MalformedPeriod\<close> is "O periodo deve ser um numero inteiro positivo" and
  \<open>NonPositivePeriod\<close> is "O periodo deve ser maior que zero".
\<close>

datatype validation_error =
  MalformedCurrency | NonPositiveContribution | MalformedPercentage | NonPositiveRate
| MalformedPeriod | NonPositivePeriod

definition transform :: "string \<Rightarrow> jsnum" where
  "transform val = Number_js (replace_comma (replace_dots val))"

definition aporteInicial_schema :: "string \<Rightarrow> validation_error + jsnum" where
  "aporteInicial_schema val =
     (if test currency_rx val then Inr (transform val) else Inl MalformedCurrency)"

definition aporteMensal_schema :: "string \<Rightarrow> validation_error + jsnum" where
  "aporteMensal_schema val =
     (if test currency_rx val then
        (if js_gt (transform val) (Num 0) then Inr (transform val)
         else Inl NonPositiveContribution)
      else Inl MalformedCurrency)"

definition taxa_schema :: "string \<Rightarrow> validation_error + jsnum" where
  "taxa_schema val =
     (if test taxa_rx val then
        (if js_gt (transform val) (Num 0) then Inr (transform val) else Inl NonPositiveRate)
      else Inl MalformedPercentage)"

definition periodo_schema :: "string \<Rightarrow> validation_error + jsnum" where
  "periodo_schema val =
     (if test periodo_rx val then
        (if js_gt (Number_js val) (Num 0) then Inr (Number_js val) else Inl NonPositivePeriod)
      else Inl MalformedPeriod)"

text \<open>
  The form as the user fills it in, and \<open>handleMoneySubmit(() => calculate())\<close>:
  \<open>calculate\<close> runs only when the schema admits all four text fields; otherwise the
  issues are reported and nothing is calculated.
\<close>

record money_form =
  f_tipoDeTaxa :: string
  f_periodo :: string
  f_periodoTipo :: string
  f_aporteInicial :: string
  f_aporteMensal :: string
  f_taxa :: string
  f_isentoDeImposto :: string
  f_vencimento :: string

definition issues :: "money_form \<Rightarrow> validation_error list" where
  "issues f =
     concat (map (\<lambda>r. case r of Inl e \<Rightarrow> [e] | Inr x \<Rightarrow> [])
       [aporteInicial_schema (f_aporteInicial f), aporteMensal_schema (f_aporteMensal f),
        taxa_schema (f_taxa f), periodo_schema (f_periodo f)])"

definition getMoneyValues :: "money_form \<Rightarrow> money_values" where
  "getMoneyValues f =
     \<lparr>tipoDeTaxa = f_tipoDeTaxa f,
      periodo = nat_of_digits (f_periodo f),
      periodoTipo = f_periodoTipo f,
      aporteInicial = transform (f_aporteInicial f),
      aporteMensal = transform (f_aporteMensal f),
      taxa = transform (f_taxa f),
      isentoDeImposto = f_isentoDeImposto f,
      vencimento = f_vencimento f\<rparr>"

definition handleMoneySubmit ::
  "js_date \<Rightarrow> item list option \<Rightarrow> item list option \<Rightarrow> money_form
     \<Rightarrow> validation_error list + (js_error + result)" where
  "handleMoneySubmit today ipca_response selic_response f =
     (if issues f = [] then Inr (calculate today ipca_response selic_response (getMoneyValues f))
      else Inl (issues f))"

section \<open>The specification's terms\<close>

text \<open>
  The definitions of this section follow the words of the specification; the theorems
  compare them with the code above.
\<close>

text \<open>\<open>totalMonths = periodUnit == Year ? periodCount*12 : periodCount\<close>\<close>

definition totalMonths :: "money_values \<Rightarrow> nat" where
  "totalMonths v = (if periodoTipo v = ''ano'' then periodo v * 12 else periodo v)"

text \<open>
  The monthly rate of a nominal rate: \<open>nominalRate/100\<close> when the rate is monthly,
  \<open>nominalRate/100/12\<close> when it is annual.
\<close>

definition monthlyRate :: "bool \<Rightarrow> real \<Rightarrow> real" where
  "monthlyRate monthly nominalRate = (if monthly then nominalRate / 100 else nominalRate / 100 / 12)"

text \<open>The closed form of the fixed regime for \<open>r > 0\<close>.\<close>

definition fixedGross :: "real \<Rightarrow> real \<Rightarrow> real \<Rightarrow> nat \<Rightarrow> real" where
  "fixedGross initialDeposit monthlyContribution r n =
     initialDeposit * (1 + r) ^ n + monthlyContribution * (((1 + r) ^ n - 1) / r)"

text \<open>\<open>applyTax(grossAmount, gain, exempt)\<close>\<close>

definition applyTax :: "jsnum \<Rightarrow> jsnum \<Rightarrow> bool \<Rightarrow> jsnum" where
  "applyTax grossAmount gain exempt =
     (if exempt then grossAmount else js_sub grossAmount (js_mul gain (Num 0.15)))"








text \<open>Comparison of the gross amounts of two calculations that both produce a result.\<close>

definition gross_less :: "js_error + result \<Rightarrow> js_error + result \<Rightarrow> bool" where
  "gross_less x y =
     (case (x, y) of
        (Inr p, Inr q) \<Rightarrow> js_gt (montanteBruto q) (montanteBruto p)
      | _ \<Rightarrow> False)"

definition gross_le :: "js_error + result \<Rightarrow> js_error + result \<Rightarrow> bool" where
  "gross_le x y =
     (case (x, y) of
        (Inr p, Inr q) \<Rightarrow> js_le (montanteBruto p) (montanteBruto q)
      | _ \<Rightarrow> False)"

text \<open>A calculation that produces a result whose gross amount is a finite number.\<close>

definition finite_gross :: "js_error + result \<Rightarrow> bool" where
  "finite_gross x = (case x of Inl e \<Rightarrow> False | Inr p \<Rightarrow> is_Num (montanteBruto p))"

text \<open>A real within the range of a double.\<close>

definition in_range :: "real \<Rightarrow> bool" where
  "in_range x = (\<bar>x\<bar> < overflow_bound)"

definition nao :: string where
  "nao = [CHR ''n'', CHR 0xC3, CHR 0xA3, CHR ''o'']"

section \<open>The parts of the calculation\<close>

text \<open>
  Names for the parts of \<open>calculate\<close> that the proofs below speak about: the
  locals \<open>taxaValue\<close> and \<open>covertedTaxa\<close>, the two loops with their arguments, and
  the closing lines of a branch, from \<open>rendimento\<close> to \<open>setResult\<close>.
\<close>

definition taxaValue_of :: "money_values \<Rightarrow> jsnum" where
  "taxaValue_of v = (if tipoDeTaxa v = ''cdi'' then Num 0 else taxa v)"

definition covertedTaxa_of :: "money_values \<Rightarrow> jsnum" where
  "covertedTaxa_of v =
     (if vencimento v = ''meses'' then js_div (taxaValue_of v) (Num 100)
      else js_div (js_div (taxaValue_of v) (Num 12)) (Num 100))"

definition set_result :: "string \<Rightarrow> jsnum \<times> jsnum \<Rightarrow> result" where
  "set_result isento s =
     \<lparr>montanteBruto = fst s,
      montanteLiquido =
        (if isento = ''sim'' then fst s
         else js_sub (fst s) (js_mul (js_sub (fst s) (snd s)) (Num 0.15)))\<rparr>"

definition ipca_loop :: "js_date \<Rightarrow> rate_table \<Rightarrow> money_values \<Rightarrow> js_error + jsnum \<times> jsnum" where
  "ipca_loop today ipcaData v =
     month_loop (ipcaAno_of ipcaData (anoFinal_of ipcaData)) today (covertedTaxa_of v)
       (aporteMensal v) (totalMonths v) 1 (aporteInicial v, aporteInicial v)"

definition cdi_loop :: "js_date \<Rightarrow> rate_table \<Rightarrow> money_values \<Rightarrow> js_error + jsnum \<times> jsnum" where
  "cdi_loop today cdi v =
     month_loop (cdiAno_of cdi (anoFinal_of cdi)) today
       (js_div (js_div (taxaValue_of v) (Num 100)) (Num 12))
       (aporteMensal v) (totalMonths v) 1 (aporteInicial v, aporteInicial v)"

section \<open>Concrete inputs\<close>

text \<open>The 15th of January 2026.\<close>

definition example_today :: js_date where
  "example_today = \<lparr>getFullYear = 2026, getMonth = 0, getDate = 15\<rparr>"

text \<open>
  The end-to-end scenario of the fixed regime: 1000 at the start, 100 each month,
  12 per cent a year, 12 months, not exempt; first as the values that \<open>calculate\<close>
  reads, then as the texts of the form.
\<close>

definition example_values :: money_values where
  "example_values =
     \<lparr>tipoDeTaxa = ''prefixado'', periodo = 12, periodoTipo = ''mes'',
      aporteInicial = Num 1000, aporteMensal = Num 100, taxa = Num 12,
      isentoDeImposto = nao, vencimento = ''ano''\<rparr>"

definition example_form :: money_form where
  "example_form =
     \<lparr>f_tipoDeTaxa = ''prefixado'', f_periodo = ''12'', f_periodoTipo = ''mes'',
      f_aporteInicial = ''1.000,00'', f_aporteMensal = ''100,00'', f_taxa = ''12'',
      f_isentoDeImposto = nao, f_vencimento = ''ano''\<rparr>"


text \<open>
  The fixed regime with no deposit and a single month: "0,00" at the start, 100 a month,
  1 per cent a month, one month.
\<close>

definition one_month_values :: money_values where
  "one_month_values =
     \<lparr>tipoDeTaxa = ''prefixado'', periodo = 1, periodoTipo = ''mes'',
      aporteInicial = Num 0, aporteMensal = Num 100, taxa = Num 1,
      isentoDeImposto = ''sim'', vencimento = ''meses''\<rparr>"


definition ipca_values :: money_values where
  "ipca_values =
     \<lparr>tipoDeTaxa = ''ipca+'', periodo = 2, periodoTipo = ''mes'',
      aporteInicial = Num 1000, aporteMensal = Num 100, taxa = Num 12,
      isentoDeImposto = ''sim'', vencimento = ''ano''\<rparr>"






section \<open>Arithmetic on JavaScript numbers\<close>

lemma overflow_bound_gt_one: "1 < overflow_bound"
  by (simp add: overflow_bound_def)

lemma Math_pow_Num: "in_range (b ^ e) \<Longrightarrow> Math_pow (Num b) e = Num (b ^ e)"
  by (simp add: Math_pow_def in_range_def)

lemma Math_pow_overflow:
  assumes "0 < b" "\<not> in_range (b ^ e)"
  shows "Math_pow (Num b) e = Inf True"
proof -
  have "e \<noteq> 0"
  proof
    assume "e = 0"
    with assms(2) overflow_bound_gt_one show False
      by (simp add: in_range_def)
  qed
  with assms show ?thesis
    by (simp add: Math_pow_def in_range_def)
qed

lemma js_add_NaN [simp]: "js_add x NaN = NaN"
  by (cases x) simp_all

lemma js_mul_NaN [simp]: "js_mul x NaN = NaN"
  by (cases x) simp_all

lemma js_sub_NaN [simp]: "js_sub NaN y = NaN" "js_sub x NaN = NaN"
  by (simp_all add: js_sub_def)

lemma js_sub_Num: "js_sub (Num a) (Num b) = Num (a - b)"
  by (simp add: js_sub_def)

section \<open>The fixed regime\<close>

text \<open>The branch of \<open>calculate\<close> for \<open>prefixado\<close>, written out.\<close>

lemma calculate_prefixado_raw:
  assumes "tipoDeTaxa v = ''prefixado''"
  shows "calculate today ir sr v =
     (let cT = (if vencimento v = ''meses'' then js_div (taxa v) (Num 100)
                else js_div (js_div (taxa v) (Num 12)) (Num 100));
          P = Math_pow (js_add (Num 1) cT) (totalMonths v);
          g = js_add (js_mul (aporteInicial v) P)
                (js_mul (aporteMensal v) (js_div (js_sub P (Num 1)) cT))
      in Inr \<lparr>montanteBruto = g,
              montanteLiquido =
                (if isentoDeImposto v = ''sim'' then g
                 else js_sub g (js_mul (js_sub g
                        (js_add (aporteInicial v)
                           (js_mul (aporteMensal v) (Num (real (totalMonths v))))))
                        (Num 0.15)))\<rparr>)"
  using assms by (simp add: calculate_def Let_def totalMonths_def)

lemma covertedTaxa_Num:
  "(if venc = ''meses'' then js_div (Num t) (Num 100)
    else js_div (js_div (Num t) (Num 12)) (Num 100))
     = Num (monthlyRate (venc = ''meses'') t)"
  by (simp add: monthlyRate_def)

text \<open>The gross amount while the power stays within range, and beyond.\<close>

lemma prefixado_gross_Num:
  assumes "r \<noteq> 0" "in_range ((1 + r) ^ n)"
  shows "js_add (js_mul (Num a) (Math_pow (js_add (Num 1) (Num r)) n))
           (js_mul (Num c)
              (js_div (js_sub (Math_pow (js_add (Num 1) (Num r)) n) (Num 1)) (Num r)))
       = Num (fixedGross a c r n)"
  using assms by (simp add: fixedGross_def Math_pow_Num js_sub_Num)

lemma prefixado_gross_overflow:
  assumes "0 < r" "\<not> in_range ((1 + r) ^ n)" "c \<noteq> 0"
  shows "js_add (js_mul (Num a) (Math_pow (js_add (Num 1) (Num r)) n))
           (js_mul (Num c)
              (js_div (js_sub (Math_pow (js_add (Num 1) (Num r)) n) (Num 1)) (Num r)))
       = (if 0 < a \<and> 0 < c then Inf True else if a < 0 \<and> c < 0 then Inf False else NaN)"
proof -
  have "Math_pow (Num (1 + r)) n = Inf True"
    using assms(1,2) by (intro Math_pow_overflow) simp_all
  with assms(1,3) show ?thesis
    by (auto simp: js_sub_def)
qed

lemma totalInvestido_Num: "js_add (Num a) (js_mul (Num c) (Num n)) = Num (a + c * n)"
  by simp

lemma liquido_Num:
  "js_sub (Num g) (js_mul (js_sub (Num g) (Num T)) (Num 0.15)) = Num (g - (g - T) * 0.15)"
  by (simp add: js_sub_Num)

lemma calculate_prefixado:
  assumes "tipoDeTaxa v = ''prefixado''" "aporteInicial v = Num a" "aporteMensal v = Num c"
    and "taxa v = Num t" "t \<noteq> 0"
    and "in_range ((1 + monthlyRate (vencimento v = ''meses'') t) ^ totalMonths v)"
  shows "calculate today ir sr v =
     Inr \<lparr>montanteBruto =
            Num (fixedGross a c (monthlyRate (vencimento v = ''meses'') t) (totalMonths v)),
          montanteLiquido =
            (if isentoDeImposto v = ''sim''
             then Num (fixedGross a c (monthlyRate (vencimento v = ''meses'') t) (totalMonths v))
             else Num (fixedGross a c (monthlyRate (vencimento v = ''meses'') t) (totalMonths v)
                  - (fixedGross a c (monthlyRate (vencimento v = ''meses'') t) (totalMonths v)
                       - (a + c * real (totalMonths v))) * 0.15))\<rparr>"
proof -
  have "monthlyRate (vencimento v = ''meses'') t \<noteq> 0"
    using assms(5) by (simp add: monthlyRate_def)
  from prefixado_gross_Num [OF this assms(6)] show ?thesis
    unfolding calculate_prefixado_raw [OF assms(1)] Let_def assms(2-4) covertedTaxa_Num
    by (simp only: totalInvestido_Num liquido_Num)
qed

lemma calculate_prefixado_overflow:
  assumes "tipoDeTaxa v = ''prefixado''" "aporteInicial v = Num a" "aporteMensal v = Num c"
    and "taxa v = Num t" "0 < t" "c \<noteq> 0"
    and "\<not> in_range ((1 + monthlyRate (vencimento v = ''meses'') t) ^ totalMonths v)"
  shows "\<exists>res. calculate today ir sr v = Inr res
     \<and> montanteBruto res
         = (if 0 < a \<and> 0 < c then Inf True else if a < 0 \<and> c < 0 then Inf False else NaN)"
proof -
  have "0 < monthlyRate (vencimento v = ''meses'') t"
    using assms(5) by (simp add: monthlyRate_def)
  from prefixado_gross_overflow [OF this assms(7,6)] show ?thesis
    unfolding calculate_prefixado_raw [OF assms(1)] Let_def assms(2-4) covertedTaxa_Num
    by simp
qed

lemma in_rangeI: "\<bar>x\<bar> \<le> 1000000000000 \<Longrightarrow> in_range x"
  by (simp add: in_range_def overflow_bound_def)

lemma example_in_range: "in_range ((1 + 1 / 100) ^ 12)"
  by (rule in_rangeI) (simp add: power_divide)


lemma example_calculate:
  "calculate today ir sr example_values =
     Inr \<lparr>montanteBruto = Num (fixedGross 1000 100 (1 / 100) 12),
          montanteLiquido = Num (fixedGross 1000 100 (1 / 100) 12
             - (fixedGross 1000 100 (1 / 100) 12 - (1000 + 100 * 12)) * 0.15)\<rparr>"
proof -
  have h: "tipoDeTaxa example_values = ''prefixado''" "aporteInicial example_values = Num 1000"
    "aporteMensal example_values = Num 100" "taxa example_values = Num 12" "(12::real) \<noteq> 0"
    by (simp_all add: example_values_def)
  have m: "monthlyRate (vencimento example_values = ''meses'') 12 = 1 / 100"
    "totalMonths example_values = 12" "isentoDeImposto example_values \<noteq> ''sim''"
    by (simp_all add: example_values_def monthlyRate_def totalMonths_def nao_def)
  have r: "in_range ((1 + monthlyRate (vencimento example_values = ''meses'') 12)
             ^ totalMonths example_values)"
    unfolding m by (rule example_in_range)
  show ?thesis
    unfolding calculate_prefixado [OF h r] m using m(3) by simp
qed






section \<open>The three branches\<close>

text \<open>\<open>calculate\<close> in terms of its parts, one branch at a time.\<close>

lemma calculate_prefixado_set_result:
  assumes "tipoDeTaxa v = ''prefixado''"
  shows "calculate today ir sr v =
     Inr (set_result (isentoDeImposto v)
       (js_add (js_mul (aporteInicial v) (Math_pow (js_add (Num 1) (covertedTaxa_of v)) (totalMonths v)))
          (js_mul (aporteMensal v)
             (js_div (js_sub (Math_pow (js_add (Num 1) (covertedTaxa_of v)) (totalMonths v)) (Num 1))
                (covertedTaxa_of v))),
        js_add (aporteInicial v) (js_mul (aporteMensal v) (Num (real (totalMonths v))))))"
  using assms
  by (simp add: calculate_def Let_def totalMonths_def set_result_def covertedTaxa_of_def
      taxaValue_of_def)

lemma calculate_ipca:
  assumes "tipoDeTaxa v = ''ipca+''"
  shows "calculate today ir sr v =
     (case fetchIPCARateReal ir of
        None \<Rightarrow> Inl TypeError
      | Some ipcaData \<Rightarrow> map_sum id (set_result (isentoDeImposto v)) (ipca_loop today ipcaData v))"
  using assms
  by (simp add: calculate_def Let_def totalMonths_def set_result_def covertedTaxa_of_def
      taxaValue_of_def ipca_loop_def split: option.splits sum.splits prod.splits)

lemma calculate_cdi:
  assumes "tipoDeTaxa v \<noteq> ''prefixado''" "tipoDeTaxa v \<noteq> ''ipca+''"
  shows "calculate today ir sr v =
     (case fetchCDIRateReal sr of
        None \<Rightarrow> Inl TypeError
      | Some cdi \<Rightarrow> map_sum id (set_result (isentoDeImposto v)) (cdi_loop today cdi v))"
  using assms
  by (simp add: calculate_def Let_def totalMonths_def set_result_def
      taxaValue_of_def cdi_loop_def split: option.splits sum.splits prod.splits)

lemma set_result_gross [simp]: "montanteBruto (set_result e s) = fst s"
  by (simp add: set_result_def)

section \<open>The exemption flag\<close>

text \<open>
  Claim C10. In every regime, two calculations on the same values, date and rate tables
  that differ only in the exemption flag have the same gross amount (or fail alike): the
  flag reaches the net amount only.
\<close>

theorem gross_independent_of_exemption:
  "map_sum id montanteBruto (calculate today ir sr (v\<lparr>isentoDeImposto := e1\<rparr>))
     = map_sum id montanteBruto (calculate today ir sr (v\<lparr>isentoDeImposto := e2\<rparr>))"
proof -
  have loops: "ipca_loop today t (v\<lparr>isentoDeImposto := e\<rparr>) = ipca_loop today t v"
    "cdi_loop today t (v\<lparr>isentoDeImposto := e\<rparr>) = cdi_loop today t v" for t e
    by (simp_all add: ipca_loop_def cdi_loop_def covertedTaxa_of_def taxaValue_of_def
        totalMonths_def)
  have g: "map_sum id montanteBruto (map_sum id (set_result e) x) = map_sum id fst x" for e x
    by (cases x) simp_all
  consider "tipoDeTaxa v = ''prefixado''" | "tipoDeTaxa v = ''ipca+''"
    | "tipoDeTaxa v \<noteq> ''prefixado''" "tipoDeTaxa v \<noteq> ''ipca+''"
    by blast
  then show ?thesis
  proof cases
    case 1
    then show ?thesis
      by (simp add: calculate_prefixado_set_result covertedTaxa_of_def taxaValue_of_def
          totalMonths_def)
  next
    case 2
    then show ?thesis
      by (simp add: calculate_ipca loops g split: option.splits)
  next
    case 3
    then show ?thesis
      by (simp add: calculate_cdi loops g split: option.splits)
  qed
qed

theorem gross_independent_of_exemption_witness:
  "map_sum id montanteBruto
       (calculate example_today None None (example_values\<lparr>isentoDeImposto := ''sim''\<rparr>))
     = Inr (Num (fixedGross 1000 100 (1 / 100) 12))
   \<and> map_sum id montanteBruto
       (calculate example_today None None (example_values\<lparr>isentoDeImposto := nao\<rparr>))
     = Inr (Num (fixedGross 1000 100 (1 / 100) 12))"
proof -
  have "example_values\<lparr>isentoDeImposto := nao\<rparr> = example_values"
    by (simp add: example_values_def)
  with gross_independent_of_exemption
    [where today = example_today and ir = None and sr = None and v = example_values
       and ?e1.0 = "''sim''" and ?e2.0 = nao]
  show ?thesis by (simp add: example_calculate)
qed

section \<open>The monthly loop\<close>

lemma month_loop_step:
  "i \<le> meses \<Longrightarrow>
     month_loop rate today tr c meses i s
       = (case rate (ano_of today i) of
            Inl e \<Rightarrow> Inl e
          | Inr x \<Rightarrow> month_loop rate today tr c meses (Suc i) (month_step x tr c s))"
  by (subst month_loop.simps) simp

lemma month_loop_done:
  "meses < i \<Longrightarrow> month_loop rate today tr c meses i s = Inr s"
  by (subst month_loop.simps) simp

lemma month_step_snd: "snd (month_step x tr (Num c) (m, Num T)) = Num (T + c)"
  by (simp add: month_step_def Let_def)




text \<open>The second component counts the contributions.\<close>

lemma month_loop_total:
  "month_loop rate today tr (Num c) meses i (m, Num T) = Inr (m', T') \<Longrightarrow>
     T' = Num (T + c * real (Suc meses - i))"
proof (induction "Suc meses - i" arbitrary: i m T)
  case 0
  then have "meses < i" by simp
  with "0.prems" show ?case by (simp add: month_loop_done)
next
  case (Suc d)
  then have le: "i \<le> meses" by simp
  show ?case
  proof (cases "rate (ano_of today i)")
    case (Inl e)
    with le Suc.prems show ?thesis by (simp add: month_loop_step)
  next
    case (Inr x)
    obtain m1 where st: "month_step x tr (Num c) (m, Num T) = (m1, Num (T + c))"
      using month_step_snd [of x tr c m T] by (cases "month_step x tr (Num c) (m, Num T)") simp
    from Suc.prems have "month_loop rate today tr (Num c) meses (Suc i) (m1, Num (T + c)) = Inr (m', T')"
      by (simp add: month_loop_step [OF le] Inr st)
    moreover have "d = Suc meses - Suc i" using Suc.hyps(2) by simp
    ultimately have "T' = Num (T + c + c * real (Suc meses - Suc i))"
      using Suc.hyps(1) by blast
    with le show ?thesis by (simp add: Suc_diff_le algebra_simps)
  qed
qed




section \<open>The tax step\<close>

lemma set_result_net:
  "montanteLiquido (set_result e (g, T)) = applyTax g (js_sub g T) (e = ''sim'')"
  by (simp add: set_result_def applyTax_def)

lemma ipca_loop_total:
  assumes "aporteInicial v = Num a" "aporteMensal v = Num c" "ipca_loop today t v = Inr (m, T)"
  shows "T = Num (a + c * real (totalMonths v))"
  using month_loop_total [of _ today _ c "totalMonths v" 1 "Num a" a m T] assms
  by (simp add: ipca_loop_def)

lemma cdi_loop_total:
  assumes "aporteInicial v = Num a" "aporteMensal v = Num c" "cdi_loop today t v = Inr (m, T)"
  shows "T = Num (a + c * real (totalMonths v))"
  using month_loop_total [of _ today _ c "totalMonths v" 1 "Num a" a m T] assms
  by (simp add: cdi_loop_def)

text \<open>
  Whatever the branch, a result is \<open>set_result\<close> of the gross amount and of the total
  invested, which is the initial deposit plus one contribution a month.
\<close>

lemma calculate_set_result:
  assumes "aporteInicial v = Num a" "aporteMensal v = Num c"
    and "calculate today ir sr v = Inr res"
  shows "res = set_result (isentoDeImposto v)
                 (montanteBruto res, Num (a + c * real (totalMonths v)))"
proof -
  consider "tipoDeTaxa v = ''prefixado''" | "tipoDeTaxa v = ''ipca+''"
    | "tipoDeTaxa v \<noteq> ''prefixado''" "tipoDeTaxa v \<noteq> ''ipca+''"
    by blast
  then show ?thesis
  proof cases
    case 1
    from assms(3) show ?thesis
      unfolding calculate_prefixado_set_result [OF 1] assms(1,2) totalInvestido_Num
      by auto
  next
    case 2
    from assms(3) obtain t m T where l: "ipca_loop today t v = Inr (m, T)"
      and r: "res = set_result (isentoDeImposto v) (m, T)"
      unfolding calculate_ipca [OF 2]
      by (cases "fetchIPCARateReal ir"; cases "ipca_loop today (the (fetchIPCARateReal ir)) v") auto
    from ipca_loop_total [OF assms(1,2) l] r show ?thesis by simp
  next
    case 3
    from assms(3) obtain t m T where l: "cdi_loop today t v = Inr (m, T)"
      and r: "res = set_result (isentoDeImposto v) (m, T)"
      unfolding calculate_cdi [OF 3]
      by (cases "fetchCDIRateReal sr"; cases "cdi_loop today (the (fetchCDIRateReal sr)) v") auto
    from cdi_loop_total [OF assms(1,2) l] r show ?thesis by simp
  qed
qed

text \<open>
  Claim C5. In all three regimes the net amount is the gross amount when the
  calculation is exempt, and the gross amount less 15 per cent of the gain otherwise,
  the gain being the gross amount less the total invested.
\<close>

theorem net_is_applyTax:
  assumes "aporteInicial v = Num a" "aporteMensal v = Num c"
    and "calculate today ir sr v = Inr res"
    and "grossAmount = montanteBruto res"
    and "gain = js_sub grossAmount (Num (a + c * real (totalMonths v)))"
  shows "montanteLiquido res = applyTax grossAmount gain (isentoDeImposto v = ''sim'')
     \<and> (isentoDeImposto v = ''sim'' \<longrightarrow> montanteLiquido res = grossAmount)
     \<and> (isentoDeImposto v \<noteq> ''sim'' \<longrightarrow>
          montanteLiquido res = js_sub grossAmount (js_mul gain (Num 0.15)))"
proof -
  have "montanteLiquido res = applyTax grossAmount gain (isentoDeImposto v = ''sim'')"
    by (subst calculate_set_result [OF assms(1-3)]) (simp only: set_result_net assms(4,5))
  then show ?thesis by (simp add: applyTax_def)
qed

theorem net_is_applyTax_witness:
  "aporteInicial example_values = Num 1000 \<and> aporteMensal example_values = Num 100
   \<and> (\<exists>res. calculate example_today None None example_values = Inr res
         \<and> isentoDeImposto example_values \<noteq> ''sim''
         \<and> montanteLiquido res
             = js_sub (montanteBruto res)
                 (js_mul (js_sub (montanteBruto res) (Num (1000 + 100 * 12))) (Num 0.15)))"
proof -
  have h: "aporteInicial example_values = Num 1000" "aporteMensal example_values = Num 100"
    by (simp_all add: example_values_def)
  have n: "isentoDeImposto example_values \<noteq> ''sim''" "totalMonths example_values = 12"
    by (simp_all add: example_values_def nao_def totalMonths_def)
  obtain res where c: "calculate example_today None None example_values = Inr res"
    using example_calculate by blast
  from net_is_applyTax
    [where v = example_values and today = example_today and ir = None and sr = None,
      OF h c refl refl] n
  have "montanteLiquido res
          = js_sub (montanteBruto res)
              (js_mul (js_sub (montanteBruto res) (Num (1000 + 100 * 12))) (Num 0.15))"
    by (simp add: applyTax_def)
  with h n(1) c show ?thesis by blast
qed

section \<open>A table that is missing or empty\<close>

lemma empty_table_rates:
  "ipcaAno_of [] (anoFinal_of []) y = Inl TypeError" "cdiAno_of [] (anoFinal_of []) y = Inl TypeError"
  by (simp_all add: ipcaAno_of_def cdiAno_of_def final_Media_def anoFinal_of_def)

text \<open>
  Claim C6. In an indexed regime with at least one month to simulate, when the fetch
  fails (the fetch function then returns \<open>undefined\<close>) or the fetched table is empty,
  \<open>calculate\<close> ends with an exception and sets no result.
\<close>

theorem table_unavailable:
  assumes "tipoDeTaxa v \<noteq> ''prefixado''" "1 \<le> totalMonths v"
    and "fetched = (if tipoDeTaxa v = ''ipca+'' then fetchIPCARateReal ir else fetchCDIRateReal sr)"
    and "fetched = None \<or> fetched = Some []"
  shows "calculate today ir sr v = Inl TypeError"
proof (cases "tipoDeTaxa v = ''ipca+''")
  case True
  with assms(3,4) have "fetchIPCARateReal ir = None \<or> fetchIPCARateReal ir = Some []" by simp
  then show ?thesis
    using assms(2)
    by (auto simp: calculate_ipca [OF True] ipca_loop_def month_loop_step empty_table_rates)
next
  case False
  with assms(3,4) have "fetchCDIRateReal sr = None \<or> fetchCDIRateReal sr = Some []" by simp
  then show ?thesis
    using assms(2)
    by (auto simp: calculate_cdi [OF assms(1) False] cdi_loop_def month_loop_step empty_table_rates)
qed

theorem table_unavailable_witness:
  "tipoDeTaxa ipca_values \<noteq> ''prefixado'' \<and> 1 \<le> totalMonths ipca_values
   \<and> fetchIPCARateReal None = None \<and> fetchIPCARateReal (Some []) = Some []
   \<and> calculate example_today None None ipca_values = Inl TypeError
   \<and> calculate example_today (Some []) None ipca_values = Inl TypeError"
proof -
  have h: "tipoDeTaxa ipca_values \<noteq> ''prefixado''" "1 \<le> totalMonths ipca_values"
    and i: "tipoDeTaxa ipca_values = ''ipca+''"
    by (simp_all add: ipca_values_def totalMonths_def)
  have f: "fetchIPCARateReal None = None" "fetchIPCARateReal (Some []) = Some []"
    by (simp_all add: fetchIPCARateReal_def)
  have "calculate example_today None None ipca_values = Inl TypeError"
    by (rule table_unavailable [OF h, where fetched = None]) (simp_all add: i f)
  moreover have "calculate example_today (Some []) None ipca_values = Inl TypeError"
    by (rule table_unavailable [OF h, where fetched = "Some []"]) (simp_all add: i f)
  ultimately show ?thesis using h f by blast
qed

section \<open>The calculation on the concrete inputs\<close>





section \<open>Net and gross\<close>





section \<open>The benchmark regime\<close>











section \<open>The inflation regime\<close>








section \<open>Regular expressions\<close>





























section \<open>What the schema admits\<close>

lemma issues_Nil_taxa:
  assumes "issues f = []"
  shows "js_gt (transform (f_taxa f)) (Num 0)"
  using assms by (auto simp: issues_def taxa_schema_def split: sum.splits if_splits)

lemma issues_taxa_refused:
  assumes "\<not> js_gt (transform (f_taxa f)) (Num 0)"
  shows "NonPositiveRate \<in> set (issues f) \<or> MalformedPercentage \<in> set (issues f)"
  using assms by (simp add: issues_def taxa_schema_def)

lemma example_form_values: "issues example_form = []" "getMoneyValues example_form = example_values"
  by (simp_all add: issues_def example_form_def aporteInicial_schema_def aporteMensal_schema_def
      taxa_schema_def periodo_schema_def test_def currency_rx_def taxa_rx_def periodo_rx_def
      Opt_def digit_def transform_def replace_dots_def Number_js_def nat_of_digits_def
      digit_val_def getMoneyValues_def example_values_def)

lemma zero_rate_form_issues: "issues (example_form\<lparr>f_taxa := ''0''\<rparr>) = [NonPositiveRate]"
  by (simp add: issues_def example_form_def aporteInicial_schema_def aporteMensal_schema_def
      taxa_schema_def periodo_schema_def test_def currency_rx_def taxa_rx_def periodo_rx_def
      Opt_def digit_def transform_def replace_dots_def Number_js_def nat_of_digits_def
      digit_val_def)

lemma transform_zero: "transform ''0'' = Num 0"
  by (simp add: transform_def replace_dots_def Number_js_def nat_of_digits_def digit_val_def
      digit_def)

text \<open>
  Claim C3, as amended. The fixed regime has no case for a zero rate: every calculation
  that runs evaluates the one geometric-series formula, which divides by the monthly rate.
  The zero rate is kept out by the form instead: the schema admits a rate only when its
  value is greater than 0, and a form whose rate is not greater than 0 is refused with a
  validation issue on the rate, so that no calculation runs and no gross amount is
  returned.
\<close>

theorem zero_rate_refused:
  assumes "f_tipoDeTaxa f = ''prefixado''" "v = getMoneyValues f"
  shows "(issues f = [] \<longrightarrow>
            js_gt (taxa v) (Num 0)
          \<and> handleMoneySubmit today ir sr f =
              Inr (Inr (set_result (isentoDeImposto v)
                (js_add
                   (js_mul (aporteInicial v)
                      (Math_pow (js_add (Num 1) (covertedTaxa_of v)) (totalMonths v)))
                   (js_mul (aporteMensal v)
                      (js_div
                         (js_sub (Math_pow (js_add (Num 1) (covertedTaxa_of v)) (totalMonths v))
                            (Num 1))
                         (covertedTaxa_of v))),
                 js_add (aporteInicial v)
                   (js_mul (aporteMensal v) (Num (real (totalMonths v))))))))
     \<and> (\<not> js_gt (transform (f_taxa f)) (Num 0) \<longrightarrow>
            handleMoneySubmit today ir sr f = Inl (issues f)
          \<and> (NonPositiveRate \<in> set (issues f) \<or> MalformedPercentage \<in> set (issues f)))"
proof (intro conjI impI)
  assume i: "issues f = []"
  from issues_Nil_taxa [OF i] show "js_gt (taxa v) (Num 0)"
    by (simp add: assms(2) getMoneyValues_def)
  have p: "tipoDeTaxa v = ''prefixado''"
    using assms by (simp add: getMoneyValues_def)
  show "handleMoneySubmit today ir sr f =
      Inr (Inr (set_result (isentoDeImposto v)
        (js_add
           (js_mul (aporteInicial v)
              (Math_pow (js_add (Num 1) (covertedTaxa_of v)) (totalMonths v)))
           (js_mul (aporteMensal v)
              (js_div
                 (js_sub (Math_pow (js_add (Num 1) (covertedTaxa_of v)) (totalMonths v))
                    (Num 1))
                 (covertedTaxa_of v))),
         js_add (aporteInicial v)
           (js_mul (aporteMensal v) (Num (real (totalMonths v)))))))"
    unfolding calculate_prefixado_set_result [OF p, of today ir sr, symmetric]
    by (simp add: handleMoneySubmit_def i assms(2))
next
  assume n: "\<not> js_gt (transform (f_taxa f)) (Num 0)"
  from issues_taxa_refused [OF n]
  show "NonPositiveRate \<in> set (issues f) \<or> MalformedPercentage \<in> set (issues f)" .
  then have "issues f \<noteq> []" by auto
  then show "handleMoneySubmit today ir sr f = Inl (issues f)"
    by (simp add: handleMoneySubmit_def)
qed

theorem zero_rate_refused_witness:
  "f_tipoDeTaxa example_form = ''prefixado'' \<and> issues example_form = []
   \<and> js_gt (taxa example_values) (Num 0)
   \<and> (\<exists>res. handleMoneySubmit example_today None None example_form = Inr (Inr res))
   \<and> \<not> js_gt (transform (f_taxa (example_form\<lparr>f_taxa := ''0''\<rparr>))) (Num 0)
   \<and> handleMoneySubmit example_today None None (example_form\<lparr>f_taxa := ''0''\<rparr>)
       = Inl [NonPositiveRate]"
proof -
  have p: "f_tipoDeTaxa example_form = ''prefixado''"
    "f_tipoDeTaxa (example_form\<lparr>f_taxa := ''0''\<rparr>) = ''prefixado''"
    by (simp_all add: example_form_def)
  have z: "\<not> js_gt (transform (f_taxa (example_form\<lparr>f_taxa := ''0''\<rparr>))) (Num 0)"
    by (simp add: transform_zero)
  from zero_rate_refused [OF p(1) example_form_values(2) [symmetric], of example_today None None]
    example_form_values(1)
  have a: "js_gt (taxa example_values) (Num 0)
      \<and> (\<exists>res. handleMoneySubmit example_today None None example_form = Inr (Inr res))"
    by blast
  from zero_rate_refused [OF p(2) refl, of example_today None None] z
  have "handleMoneySubmit example_today None None (example_form\<lparr>f_taxa := ''0''\<rparr>)
      = Inl (issues (example_form\<lparr>f_taxa := ''0''\<rparr>))"
    by blast
  with a p(1) z example_form_values(1) show ?thesis
    unfolding zero_rate_form_issues by blast
qed

theorem zero_rate_counterexample:
  "transform ''0'' = Num 0
   \<and> handleMoneySubmit example_today None None (example_form\<lparr>f_taxa := ''0''\<rparr>)
       = Inl [NonPositiveRate]"
  by (simp add: transform_zero handleMoneySubmit_def zero_rate_form_issues)

section \<open>Monotonicity of the fixed regime\<close>

lemma annuity_sum:
  fixes r :: real
  assumes "r \<noteq> 0"
  shows "((1 + r) ^ n - 1) / r = (\<Sum>k<n. (1 + r) ^ k)"
  using geometric_sum [of "1 + r" n] assms by simp

lemma fixedGross_sum:
  "r \<noteq> 0 \<Longrightarrow> fixedGross a c r n = a * (1 + r) ^ n + c * (\<Sum>k<n. (1 + r) ^ k)"
  by (simp add: fixedGross_def annuity_sum)

lemma fixedGross_mono_deposit:
  assumes "0 < r" "a < a'"
  shows "fixedGross a c r n < fixedGross a' c r n"
proof -
  have "0 < (1 + r) ^ n" using assms(1) by simp
  with assms(2) show ?thesis by (simp add: fixedGross_def)
qed

lemma fixedGross_mono_contribution:
  assumes "0 < r" "c < c'" "1 \<le> n"
  shows "fixedGross a c r n < fixedGross a c' r n"
proof -
  from assms(3) obtain m where n: "n = Suc m" by (cases n) simp_all
  have "0 \<le> (\<Sum>k<m. (1 + r) ^ k)"
    using assms(1) by (intro sum_nonneg) simp
  moreover have "0 < (1 + r) ^ m" using assms(1) by simp
  ultimately have "0 < (\<Sum>k<n. (1 + r) ^ k)" by (simp add: n)
  with assms(1,2) show ?thesis by (simp add: fixedGross_sum)
qed

lemma fixedGross_mono_months:
  assumes "0 < r" "0 \<le> a" "0 < c" "n < n'"
  shows "fixedGross a c r n < fixedGross a c r n'"
proof -
  have p: "(1 + r) ^ n < (1 + r) ^ n'"
    using assms(1,4) by (intro power_strict_increasing) simp_all
  then have "a * (1 + r) ^ n \<le> a * (1 + r) ^ n'"
    using assms(2) by (intro mult_left_mono) simp_all
  moreover have "((1 + r) ^ n - 1) / r < ((1 + r) ^ n' - 1) / r"
    using p assms(1) by (simp add: divide_strict_right_mono)
  then have "c * (((1 + r) ^ n - 1) / r) < c * (((1 + r) ^ n' - 1) / r)"
    using assms(3) by (rule mult_strict_left_mono)
  ultimately show ?thesis by (simp add: fixedGross_def)
qed

lemma fixedGross_mono_rate:
  assumes "0 < r" "r < r'" "0 \<le> a" "0 < c" "1 \<le> n" "0 < a \<or> 2 \<le> n"
  shows "fixedGross a c r n < fixedGross a c r' n"
proof -
  have le: "(1 + r) ^ k \<le> (1 + r') ^ k" for k
    using assms(1,2) by (intro power_mono) simp_all
  have lt: "(1 + r) ^ k < (1 + r') ^ k" if "0 < k" for k
    using assms(1,2) that by (intro power_strict_mono) simp_all
  have s: "(\<Sum>k<n. (1 + r) ^ k) \<le> (\<Sum>k<n. (1 + r') ^ k)"
    by (intro sum_mono le)
  from assms(6) have "a * (1 + r) ^ n + c * (\<Sum>k<n. (1 + r) ^ k)
      < a * (1 + r') ^ n + c * (\<Sum>k<n. (1 + r') ^ k)"
  proof
    assume a: "0 < a"
    from assms(5) have "(1 + r) ^ n < (1 + r') ^ n" by (intro lt) simp
    with a have "a * (1 + r) ^ n < a * (1 + r') ^ n" by simp
    moreover from s assms(4) have "c * (\<Sum>k<n. (1 + r) ^ k) \<le> c * (\<Sum>k<n. (1 + r') ^ k)"
      by simp
    ultimately show ?thesis by simp
  next
    assume n: "2 \<le> n"
    have "(\<Sum>k<n. (1 + r) ^ k) < (\<Sum>k<n. (1 + r') ^ k)"
    proof (rule sum_strict_mono_ex1)
      show "\<forall>k\<in>{..<n}. (1 + r) ^ k \<le> (1 + r') ^ k" using le by simp
      show "\<exists>k\<in>{..<n}. (1 + r) ^ k < (1 + r') ^ k"
        using n lt [of 1] by (intro bexI [of _ 1]) simp_all
    qed simp
    with assms(4) have "c * (\<Sum>k<n. (1 + r) ^ k) < c * (\<Sum>k<n. (1 + r') ^ k)" by simp
    moreover have "a * (1 + r) ^ n \<le> a * (1 + r') ^ n"
      using assms(3) le by (intro mult_left_mono) simp_all
    ultimately show ?thesis by simp
  qed
  with assms(1,2) show ?thesis by (simp add: fixedGross_sum)
qed

lemma finite_gross_Num:
  "calculate today ir sr v = Inr \<lparr>montanteBruto = Num g, montanteLiquido = m\<rparr>
     \<Longrightarrow> finite_gross (calculate today ir sr v)"
  by (simp add: finite_gross_def)

text \<open>A finite gross amount of the fixed regime is the closed form.\<close>

lemma prefixado_finite_gross:
  assumes "tipoDeTaxa v = ''prefixado''" "aporteInicial v = Num a" "aporteMensal v = Num c"
    and "taxa v = Num t" "0 < t" "c \<noteq> 0"
    and "finite_gross (calculate today ir sr v)"
  shows "map_sum id montanteBruto (calculate today ir sr v)
     = Inr (Num (fixedGross a c (monthlyRate (vencimento v = ''meses'') t) (totalMonths v)))"
proof -
  have "in_range ((1 + monthlyRate (vencimento v = ''meses'') t) ^ totalMonths v)"
  proof (rule ccontr)
    assume "\<not> in_range ((1 + monthlyRate (vencimento v = ''meses'') t) ^ totalMonths v)"
    from calculate_prefixado_overflow [OF assms(1-6) this, of today ir sr] assms(7)
    show False
      by (auto simp: finite_gross_def split: if_splits)
  qed
  moreover from assms(5) have "t \<noteq> 0" by simp
  ultimately show ?thesis
    using calculate_prefixado [OF assms(1-4)] by simp
qed

lemma gross_less_Num:
  "map_sum id montanteBruto x = Inr (Num g) \<Longrightarrow> map_sum id montanteBruto y = Inr (Num h) \<Longrightarrow>
     gross_less x y \<longleftrightarrow> g < h"
  by (cases x; cases y) (simp_all add: gross_less_def)

lemma gross_le_Num:
  "map_sum id montanteBruto x = Inr (Num g) \<Longrightarrow> map_sum id montanteBruto y = Inr (Num h) \<Longrightarrow>
     gross_le x y \<longleftrightarrow> g \<le> h"
  by (cases x; cases y) (simp_all add: gross_le_def)

lemma monthlyRate_mono: "t < t' \<Longrightarrow> monthlyRate b t < monthlyRate b t'"
  by (simp add: monthlyRate_def)

lemma monthlyRate_pos: "0 < t \<Longrightarrow> 0 < monthlyRate b t"
  by (simp add: monthlyRate_def)

text \<open>
  Claim C8, as amended. In the fixed regime with a non-negative deposit, a contribution
  and a nominal rate of at least 0.01, the least that the form admits, and at least one
  month, among calculations whose gross amounts are finite the gross amount does not
  decrease when the deposit or the contribution grows, and it increases strictly with the
  number of months. It increases strictly with the nominal rate when there are at least
  two months, the rate grows by 0.01 or more and stays at or below 1000000 per cent.
\<close>

theorem fixed_gross_monotone:
  assumes "tipoDeTaxa v = ''prefixado''" "aporteInicial v = Num a" "aporteMensal v = Num c"
    and "taxa v = Num t" "0 \<le> a" "1 / 100 \<le> c" "1 / 100 \<le> t" "1 \<le> periodo v"
    and "finite_gross (calculate today ir sr v)"
  shows "(a \<le> a' \<and> finite_gross (calculate today ir sr (v\<lparr>aporteInicial := Num a'\<rparr>)) \<longrightarrow>
            gross_le (calculate today ir sr v) (calculate today ir sr (v\<lparr>aporteInicial := Num a'\<rparr>)))
     \<and> (c \<le> c' \<and> finite_gross (calculate today ir sr (v\<lparr>aporteMensal := Num c'\<rparr>)) \<longrightarrow>
            gross_le (calculate today ir sr v) (calculate today ir sr (v\<lparr>aporteMensal := Num c'\<rparr>)))
     \<and> (periodo v < p' \<and> finite_gross (calculate today ir sr (v\<lparr>periodo := p'\<rparr>)) \<longrightarrow>
            gross_less (calculate today ir sr v) (calculate today ir sr (v\<lparr>periodo := p'\<rparr>)))
     \<and> (t + 1 / 100 \<le> t' \<and> t' \<le> 1000000 \<and> 2 \<le> totalMonths v
          \<and> finite_gross (calculate today ir sr (v\<lparr>taxa := Num t'\<rparr>)) \<longrightarrow>
            gross_less (calculate today ir sr v) (calculate today ir sr (v\<lparr>taxa := Num t'\<rparr>)))"
proof -
  let ?r = "monthlyRate (vencimento v = ''meses'') t"
  let ?n = "totalMonths v"
  from assms(6,7) have c: "0 < c" "c \<noteq> 0" and t: "0 < t" by simp_all
  have r: "0 < ?r" using t by (rule monthlyRate_pos)
  have n: "1 \<le> ?n" using assms(8) by (simp add: totalMonths_def)
  note g = prefixado_finite_gross [OF assms(1-4) t c(2) assms(9)]
  have 1: "gross_le (calculate today ir sr v) (calculate today ir sr (v\<lparr>aporteInicial := Num a'\<rparr>))"
    if "a \<le> a'" and f: "finite_gross (calculate today ir sr (v\<lparr>aporteInicial := Num a'\<rparr>))"
  proof -
    have "map_sum id montanteBruto (calculate today ir sr (v\<lparr>aporteInicial := Num a'\<rparr>))
        = Inr (Num (fixedGross a' c ?r ?n))"
      using prefixado_finite_gross [of "v\<lparr>aporteInicial := Num a'\<rparr>" a' c t today ir sr] assms(1-4)
        t c(2) f
      by (simp add: totalMonths_def)
    moreover have "fixedGross a c ?r ?n \<le> fixedGross a' c ?r ?n"
      using fixedGross_mono_deposit [OF r, of a a' c ?n] that(1) by (cases "a = a'") simp_all
    ultimately show ?thesis
      using gross_le_Num [OF g] by simp
  qed
  have 2: "gross_le (calculate today ir sr v) (calculate today ir sr (v\<lparr>aporteMensal := Num c'\<rparr>))"
    if "c \<le> c'" and f: "finite_gross (calculate today ir sr (v\<lparr>aporteMensal := Num c'\<rparr>))"
  proof -
    from that(1) c have "c' \<noteq> 0" by simp
    then have "map_sum id montanteBruto (calculate today ir sr (v\<lparr>aporteMensal := Num c'\<rparr>))
        = Inr (Num (fixedGross a c' ?r ?n))"
      using prefixado_finite_gross [of "v\<lparr>aporteMensal := Num c'\<rparr>" a c' t today ir sr] assms(1-4)
        t f
      by (simp add: totalMonths_def)
    moreover have "fixedGross a c ?r ?n \<le> fixedGross a c' ?r ?n"
      using fixedGross_mono_contribution [OF r _ n, of c c' a] that(1) by (cases "c = c'") simp_all
    ultimately show ?thesis
      using gross_le_Num [OF g] by simp
  qed
  have 3: "gross_less (calculate today ir sr v) (calculate today ir sr (v\<lparr>periodo := p'\<rparr>))"
    if "periodo v < p'" and f: "finite_gross (calculate today ir sr (v\<lparr>periodo := p'\<rparr>))"
  proof -
    let ?n' = "totalMonths (v\<lparr>periodo := p'\<rparr>)"
    have "map_sum id montanteBruto (calculate today ir sr (v\<lparr>periodo := p'\<rparr>))
        = Inr (Num (fixedGross a c ?r ?n'))"
      using prefixado_finite_gross [of "v\<lparr>periodo := p'\<rparr>" a c t today ir sr] assms(1-4)
        t c(2) f
      by simp
    moreover have "?n < ?n'" using that(1) by (simp add: totalMonths_def)
    ultimately show ?thesis
      using gross_less_Num [OF g] fixedGross_mono_months [OF r assms(5) c(1)] by simp
  qed
  have 4: "gross_less (calculate today ir sr v) (calculate today ir sr (v\<lparr>taxa := Num t'\<rparr>))"
    if "t + 1 / 100 \<le> t'" "2 \<le> ?n"
      and f: "finite_gross (calculate today ir sr (v\<lparr>taxa := Num t'\<rparr>))"
  proof -
    from that(1) t have t': "0 < t'" "t < t'" by simp_all
    have "map_sum id montanteBruto (calculate today ir sr (v\<lparr>taxa := Num t'\<rparr>))
        = Inr (Num (fixedGross a c (monthlyRate (vencimento v = ''meses'') t') ?n))"
      using prefixado_finite_gross [of "v\<lparr>taxa := Num t'\<rparr>" a c t' today ir sr] assms(1-4)
        t'(1) c(2) f
      by (simp add: totalMonths_def)
    moreover have "fixedGross a c ?r ?n < fixedGross a c (monthlyRate (vencimento v = ''meses'') t') ?n"
      using that(2) by (intro fixedGross_mono_rate r monthlyRate_mono t'(2) assms(5) c(1) n) simp
    ultimately show ?thesis
      using gross_less_Num [OF g] by simp
  qed
  from 1 2 3 4 show ?thesis by blast
qed

lemma example_variants_finite:
  "finite_gross (calculate today ir sr example_values)"
  "finite_gross (calculate today ir sr (example_values\<lparr>aporteInicial := Num 2000\<rparr>))"
  "finite_gross (calculate today ir sr (example_values\<lparr>aporteMensal := Num 200\<rparr>))"
  "finite_gross (calculate today ir sr (example_values\<lparr>periodo := 13\<rparr>))"
  "finite_gross (calculate today ir sr (example_values\<lparr>taxa := Num 13\<rparr>))"
proof -
  have r: "in_range ((1 + 1 / 100) ^ 12)" "in_range ((1 + 1 / 100) ^ 13)"
    "in_range ((1 + 13 / 1200) ^ 12)"
    by (rule in_rangeI, simp add: power_divide)+
  show "finite_gross (calculate today ir sr example_values)"
    by (simp add: example_calculate finite_gross_def)
  show "finite_gross (calculate today ir sr (example_values\<lparr>aporteInicial := Num 2000\<rparr>))"
    using calculate_prefixado [of "example_values\<lparr>aporteInicial := Num 2000\<rparr>" 2000 100 12
        today ir sr] r(1)
    by (simp add: example_values_def monthlyRate_def totalMonths_def finite_gross_def)
  show "finite_gross (calculate today ir sr (example_values\<lparr>aporteMensal := Num 200\<rparr>))"
    using calculate_prefixado [of "example_values\<lparr>aporteMensal := Num 200\<rparr>" 1000 200 12
        today ir sr] r(1)
    by (simp add: example_values_def monthlyRate_def totalMonths_def finite_gross_def)
  show "finite_gross (calculate today ir sr (example_values\<lparr>periodo := 13\<rparr>))"
    using calculate_prefixado [of "example_values\<lparr>periodo := 13\<rparr>" 1000 100 12
        today ir sr] r(2)
    by (simp add: example_values_def monthlyRate_def totalMonths_def finite_gross_def)
  show "finite_gross (calculate today ir sr (example_values\<lparr>taxa := Num 13\<rparr>))"
    using calculate_prefixado [of "example_values\<lparr>taxa := Num 13\<rparr>" 1000 100 13
        today ir sr] r(3)
    by (simp add: example_values_def monthlyRate_def totalMonths_def finite_gross_def)
qed

lemma one_month_calculate:
  assumes "0 < t" "t \<le> 100"
  shows "calculate today ir sr (one_month_values\<lparr>taxa := Num t\<rparr>)
     = Inr \<lparr>montanteBruto = Num 100, montanteLiquido = Num 100\<rparr>"
proof -
  from assms have "t \<noteq> 0" by simp
  moreover have "in_range ((1 + t / 100) ^ 1)"
    using assms by (intro in_rangeI) simp
  ultimately show ?thesis
    using calculate_prefixado [of "one_month_values\<lparr>taxa := Num t\<rparr>" 0 100 t today ir sr]
    by (simp add: one_month_values_def totalMonths_def monthlyRate_def fixedGross_def)
qed

theorem fixed_gross_monotone_witness:
  "tipoDeTaxa example_values = ''prefixado'' \<and> (1::nat) \<le> periodo example_values
   \<and> (2::nat) \<le> totalMonths example_values
   \<and> finite_gross (calculate example_today None None example_values)
   \<and> finite_gross (calculate example_today None None (example_values\<lparr>aporteInicial := Num 2000\<rparr>))
   \<and> finite_gross (calculate example_today None None (example_values\<lparr>aporteMensal := Num 200\<rparr>))
   \<and> finite_gross (calculate example_today None None (example_values\<lparr>periodo := 13\<rparr>))
   \<and> finite_gross (calculate example_today None None (example_values\<lparr>taxa := Num 13\<rparr>))
   \<and> gross_le (calculate example_today None None example_values)
       (calculate example_today None None (example_values\<lparr>aporteInicial := Num 2000\<rparr>))
   \<and> gross_le (calculate example_today None None example_values)
       (calculate example_today None None (example_values\<lparr>aporteMensal := Num 200\<rparr>))
   \<and> gross_less (calculate example_today None None example_values)
       (calculate example_today None None (example_values\<lparr>periodo := 13\<rparr>))
   \<and> gross_less (calculate example_today None None example_values)
       (calculate example_today None None (example_values\<lparr>taxa := Num 13\<rparr>))"
proof -
  have h: "tipoDeTaxa example_values = ''prefixado''" "aporteInicial example_values = Num 1000"
    "aporteMensal example_values = Num 100" "taxa example_values = Num 12"
    "(0::real) \<le> 1000" "(1 / 100 :: real) \<le> 100" "(1 / 100 :: real) \<le> 12"
    "1 \<le> periodo example_values"
    by (simp_all add: example_values_def)
  have m: "totalMonths example_values = 12" "periodo example_values = 12"
    by (simp_all add: example_values_def totalMonths_def)
  note f = example_variants_finite [of example_today None None]
  from fixed_gross_monotone [OF h f(1), of 2000 200 13 13] f
  show ?thesis
    using h(1,8) by (simp add: m)
qed

theorem rate_monotonicity_counterexample:
  "finite_gross (calculate example_today None None (one_month_values\<lparr>taxa := Num 1\<rparr>))
   \<and> finite_gross (calculate example_today None None (one_month_values\<lparr>taxa := Num 2\<rparr>))
   \<and> \<not> gross_less (calculate example_today None None (one_month_values\<lparr>taxa := Num 1\<rparr>))
         (calculate example_today None None (one_month_values\<lparr>taxa := Num 2\<rparr>))"
  by (simp add: one_month_calculate gross_less_def finite_gross_def)

end
